theory Spec2Isabelle
  imports Complex_Main "HOL-Library.Sublist"
begin

section \<open>Data model of \<open>yt_dlp/extractor/rai.py\<close> (class \<open>RaiBaseIE\<close>)\<close>

text \<open>
  Exceptions of the source are values. \<open>ExtractorError\<close> is what the framework raises on
  a failed mandatory download or a fatal DRM report; \<open>GeoRestricted countries
  metadata_available\<close> carries the two arguments the source passes to
  \<open>raise_geo_restricted\<close>; \<open>TypeError\<close>, \<open>KeyError\<close> and \<open>AttributeError\<close> are the Python
  run-time errors of the operations written in the source (\<open>None > 0\<close>, \<open>None / 100\<close>,
  \<open>x in None\<close>, a missing dictionary key, a method that the value does not have).
\<close>

datatype error =
    ExtractorError
  | GeoRestricted "string list" bool
  | TypeError
  | KeyError
  | AttributeError

datatype platform = Mon | Flash | Native

text \<open>
  A format dictionary. Only the keys this file reads or writes are kept; a field is
  \<open>None\<close> when the key is absent or holds Python's \<open>None\<close> (\<open>dict.get\<close> does not tell them
  apart). Bitrates and frame rates are Python numbers (int or float), modelled as
  rationals.
\<close>

record format =
  f_url :: "string option"
  f_format_id :: "string option"
  f_tbr :: "rat option"
  f_vcodec :: "string option"
  f_acodec :: "string option"
  f_width :: "int option"
  f_height :: "int option"
  f_fps :: "rat option"
  f_protocol :: "string option"
  f_ext :: "string option"

definition empty_format :: format where
  "empty_format = \<lparr>f_url = None, f_format_id = None, f_tbr = None, f_vcodec = None,
     f_acodec = None, f_width = None, f_height = None, f_fps = None, f_protocol = None,
     f_ext = None\<rparr>"

text \<open>
  The relinker's XML answer for one platform, as the queries of the source see it:
  each \<open>x_...\<close> field is the text of the element of that name (\<open>None\<close>: no such element, or
  an element without text); \<open>x_url\<close> is \<open>find_xpath_attr(relinker, './url', 'type',
  'content')\<close>: \<open>None\<close> when there is no such element, otherwise its \<open>.text\<close>.
\<close>

record relinker_xml =
  x_license_url :: "string option"
  x_geoprotection :: "string option"
  x_is_live :: "string option"
  x_duration :: "string option"
  x_url :: "string option option"
  x_bitrate :: "string option"

text \<open>
  Helpers imported from \<open>yt_dlp.utils\<close> and the regular-expression engine are not part of
  \<open>rai.py\<close>; the embedding takes them as parameters. \<open>relinker_reg u\<close> is
  \<open>re.match(_RELINKER_REG, u)\<close>: \<open>None\<close> for no match, otherwise the \<open>quality\<close> group.
\<close>

record utils =
  parse_duration :: "string option \<Rightarrow> rat option"
  determine_ext :: "string option \<Rightarrow> string \<Rightarrow> string"
  int_or_none :: "string option \<Rightarrow> int option"
  update_url_query :: "string \<Rightarrow> (string \<times> string) list \<Rightarrow> string"
  urljoin :: "string \<Rightarrow> string \<Rightarrow> string option"
  relinker_reg :: "string \<Rightarrow> string option option"

datatype head_response = NoResponse | Response int string

text \<open>
  The network and the framework (\<open>InfoExtractor\<close>) as seen during one extraction.
  \<open>download_xml url pl\<close> is \<open>_download_xml\<close> with query \<open>{'output': 45, 'pl': pl}\<close>
  (\<open>None\<close>: the download failed and the framework raised); \<open>drm_fatal\<close> tells whether
  \<open>report_drm\<close> raises (\<open>ExtractorError\<close>) or only warns and returns; the two manifest expansions are
  called with \<open>fatal=False\<close> and give the empty list on failure; \<open>request_webpage\<close> is the
  HEAD request with \<open>fatal=False\<close> (\<open>NoResponse\<close> is the value \<open>False\<close>, otherwise status code
  and final URL).
\<close>

record env =
  download_xml :: "string \<Rightarrow> platform \<Rightarrow> relinker_xml option"
  drm_fatal :: bool
  extract_m3u8_formats :: "string \<Rightarrow> format list"
  extract_f4m_formats :: "string \<Rightarrow> format list"
  request_webpage :: "string \<Rightarrow> head_response"

datatype event =
    DownloadXml string platform
  | ReportDrm
  | ExtractM3u8 string
  | ExtractF4m string
  | HeadRequest string

text \<open>The local variables of the loop of \<open>_extract_relinker_info\<close>, and the requests made.\<close>

record lstate =
  ls_formats :: "format list"
  ls_geoprotection :: "bool option"
  ls_is_live :: "bool option"
  ls_duration :: "rat option"
  ls_trace :: "event list"

text \<open>
  The dictionary returned through \<open>filter_dict\<close>, which drops the keys whose value is
  \<open>None\<close>: \<open>o_is_live = None\<close> means the key \<open>is_live\<close> is omitted, \<open>Some b\<close> that it is present
  with value \<open>b\<close>; likewise \<open>o_duration\<close>.
\<close>

record outcome =
  o_is_live :: "bool option"
  o_duration :: "rat option"
  o_formats :: "format list"

datatype step = Continue lstate | Break lstate | Raise error lstate

section \<open>String helpers of the Python built-ins used\<close>

text \<open>\<open>p in s\<close> for strings.\<close>

fun contains :: "string \<Rightarrow> string \<Rightarrow> bool" where
  "contains p [] = (p = [])"
| "contains p (c # cs) = (prefix p (c # cs) \<or> contains p cs)"

text \<open>\<open>re.match(r'https?://', s)\<close>.\<close>

definition re_match_http :: "string \<Rightarrow> bool" where
  "re_match_http s = (prefix ''http://'' s \<or> prefix ''https://'' s)"

text \<open>\<open>s.replace(old, new)\<close> for a non-empty \<open>old\<close>; \<open>k\<close> counts characters of a match still to skip.\<close>

fun replace_from :: "string \<Rightarrow> string \<Rightarrow> nat \<Rightarrow> string \<Rightarrow> string" where
  "replace_from old new k [] = []"
| "replace_from old new k (c # cs) =
     (if 0 < k then replace_from old new (k - 1) cs
      else if prefix old (c # cs) then new @ replace_from old new (length old - 1) cs
      else c # replace_from old new 0 cs)"

definition str_replace :: "string \<Rightarrow> string \<Rightarrow> string \<Rightarrow> string" where
  "str_replace s old new = replace_from old new 0 s"

text \<open>\<open>s.split(sep)\<close> for a one-character separator.\<close>

fun split_on :: "char \<Rightarrow> string \<Rightarrow> string list" where
  "split_on sep [] = [[]]"
| "split_on sep (c # cs) =
     (let r = split_on sep cs in if c = sep then [] # r else (c # hd r) # tl r)"

text \<open>\<open>str(n)\<close> for an integer and \<open>int(s)\<close> for a string of ASCII digits.\<close>

fun str_nat :: "nat \<Rightarrow> string" where
  "str_nat n = (if n < 10 then [char_of (48 + n)] else str_nat (n div 10) @ [char_of (48 + n mod 10)])"

declare str_nat.simps [simp del]

definition str_int :: "int \<Rightarrow> string" where
  "str_int i = (if i < 0 then CHR ''-'' # str_nat (nat (- i)) else str_nat (nat i))"

definition int_of_digits :: "string \<Rightarrow> int" where
  "int_of_digits s = foldl (\<lambda>n c. 10 * n + (of_char c - 48)) 0 s"

text \<open>Truth value of a number-or-\<open>None\<close>: \<open>None\<close> and zero are false.\<close>

definition truthy_num :: "rat option \<Rightarrow> bool" where
  "truthy_num v = (case v of None \<Rightarrow> False | Some x \<Rightarrow> x \<noteq> 0)"

section \<open>\<open>_extract_relinker_info\<close>\<close>

definition GEO_COUNTRIES :: "string list" where
  "GEO_COUNTRIES = [''IT'']"

definition platform_name :: "platform \<Rightarrow> string" where
  "platform_name p = (case p of Mon \<Rightarrow> ''mon'' | Flash \<Rightarrow> ''flash'' | Native \<Rightarrow> ''native'')"

definition log_event :: "event \<Rightarrow> lstate \<Rightarrow> lstate" where
  "log_event e st = st\<lparr>ls_trace := ls_trace st @ [e]\<rparr>"

text \<open>Lines 54-55: \<open>xpath_text(relinker, './license_url', default='{}') != '{}'\<close>.\<close>

definition has_license :: "relinker_xml \<Rightarrow> bool" where
  "has_license relinker =
     ((case x_license_url relinker of None \<Rightarrow> ''{}'' | Some t \<Rightarrow> t) \<noteq> ''{}'')"

text \<open>Lines 57-66: the three \<open>if not v: v = ...\<close> assignments.\<close>

definition latch :: "utils \<Rightarrow> relinker_xml \<Rightarrow> lstate \<Rightarrow> lstate" where
  "latch U relinker st = st\<lparr>
     ls_geoprotection :=
       (if ls_geoprotection st \<noteq> Some True
        then Some (x_geoprotection relinker = Some ''Y'') else ls_geoprotection st),
     ls_is_live :=
       (if ls_is_live st \<noteq> Some True
        then Some (x_is_live relinker = Some ''Y'') else ls_is_live st),
     ls_duration :=
       (if \<not> truthy_num (ls_duration st)
        then parse_duration U (x_duration relinker) else ls_duration st)\<rparr>"

definition mp3_format :: "string \<Rightarrow> format" where
  "mp3_format media_url = empty_format\<lparr>f_url := Some media_url, f_vcodec := Some ''none'',
     f_acodec := Some ''mp3'', f_format_id := Some ''http-mp3''\<rparr>"

definition direct_format :: "string \<Rightarrow> int \<Rightarrow> format" where
  "direct_format media_url bitrate = empty_format\<lparr>f_url := Some media_url,
     f_tbr := (if bitrate > 0 then Some (of_int bitrate) else None),
     f_format_id := Some (''http-'' @ (if bitrate > 0 then str_int bitrate else ''http''))\<rparr>"

definition add_formats :: "format list \<Rightarrow> lstate \<Rightarrow> lstate" where
  "add_formats fs st = st\<lparr>ls_formats := ls_formats st @ fs\<rparr>"

text \<open>Lines 68-107: what is done with the \<open>url\<close> element of one answer.\<close>

definition classify :: "utils \<Rightarrow> env \<Rightarrow> platform \<Rightarrow> relinker_xml \<Rightarrow> lstate \<Rightarrow> step" where
  "classify U E pl relinker st =
     (case x_url relinker of
        None \<Rightarrow> Continue st
      | Some None \<Rightarrow> Raise TypeError st
      | Some (Some media_url) \<Rightarrow>
          if contains ''/video_no_available.mp4'' media_url then Continue st
          else
            let ext = determine_ext U (Some media_url) ''unknown_video'' in
            if (ext = ''m3u8'' \<and> pl \<noteq> Mon) \<or> (ext = ''f4m'' \<and> pl \<noteq> Flash) then Continue st
            else if ext = ''mp3'' then Break (add_formats [mp3_format media_url] st)
            else if ext = ''m3u8'' \<or> contains ''format=m3u8'' media_url \<or> pl = Mon then
              Continue (add_formats (extract_m3u8_formats E media_url)
                          (log_event (ExtractM3u8 media_url) st))
            else if ext = ''f4m'' \<or> pl = Flash then
              (let manifest_url = update_url_query U
                     (str_replace media_url ''manifest#live_hds.f4m'' ''manifest.f4m'')
                     [(''hdcore'', ''3.7.0''), (''plugin'', ''aasp-3.7.0.39.44'')]
               in Continue (add_formats (extract_f4m_formats E manifest_url)
                              (log_event (ExtractF4m manifest_url) st)))
            else
              (case int_or_none U (x_bitrate relinker) of
                 None \<Rightarrow> Raise TypeError st
               | Some bitrate \<Rightarrow> Continue (add_formats [direct_format media_url bitrate] st)))"

text \<open>One iteration of the loop over the platforms (lines 47-107).\<close>

definition probe :: "utils \<Rightarrow> env \<Rightarrow> string \<Rightarrow> platform \<Rightarrow> lstate \<Rightarrow> step" where
  "probe U E relinker_url pl st =
     (let st1 = log_event (DownloadXml relinker_url pl) st in
      case download_xml E relinker_url pl of
        None \<Rightarrow> Raise ExtractorError st1
      | Some relinker \<Rightarrow>
          if has_license relinker then
            (if drm_fatal E then Raise ExtractorError (log_event ReportDrm st1)
             else classify U E pl relinker (latch U relinker (log_event ReportDrm st1)))
          else classify U E pl relinker (latch U relinker st1))"

fun relinker_loop ::
  "utils \<Rightarrow> env \<Rightarrow> string \<Rightarrow> platform list \<Rightarrow> lstate \<Rightarrow> error option \<times> lstate" where
  "relinker_loop U E relinker_url [] st = (None, st)"
| "relinker_loop U E relinker_url (pl # pls) st =
     (case probe U E relinker_url pl st of
        Continue st' \<Rightarrow> relinker_loop U E relinker_url pls st'
      | Break st' \<Rightarrow> (None, st')
      | Raise e st' \<Rightarrow> (Some e, st'))"

definition init_state :: lstate where
  "init_state = \<lparr>ls_formats = [], ls_geoprotection = None, ls_is_live = None,
     ls_duration = None, ls_trace = []\<rparr>"

definition run_probes :: "utils \<Rightarrow> env \<Rightarrow> string \<Rightarrow> error option \<times> lstate" where
  "run_probes U E relinker_url = relinker_loop U E relinker_url [Mon, Flash, Native] init_state"

section \<open>\<open>_create_http_urls\<close>\<close>

definition MP4_TMPL :: "string \<Rightarrow> string \<Rightarrow> string" where
  "MP4_TMPL relinker_url q = relinker_url @ ''&overrideUserAgentRule=mp4-'' @ q"

definition QUALITY :: "(string \<times> int \<times> int) list" where
  "QUALITY = [
     (''250'', 352, 198),
     (''400'', 512, 288),
     (''700'', 512, 288),
     (''800'', 700, 394),
     (''1200'', 736, 414),
     (''1800'', 1024, 576),
     (''2400'', 1280, 720),
     (''3200'', 1440, 810),
     (''3600'', 1440, 810),
     (''5000'', 1920, 1080),
     (''10000'', 1920, 1080)]"

text \<open>The three results of \<open>test_url\<close>: \<open>False\<close>, \<open>None\<close>, or the redirect target.\<close>

datatype test_result = TFalse | TNone | TUrl string

definition test_url :: "env \<Rightarrow> string \<Rightarrow> test_result" where
  "test_url E u =
     (case request_webpage E u of
        NoResponse \<Rightarrow> TFalse
      | Response code rurl \<Rightarrow>
          if code = 200 then (if rurl = u then TFalse else TUrl rurl) else TNone)"

text \<open>
  The loop of \<open>get_format_info\<close> over the existing formats; \<open>format_copy\<close> is the
  accumulator. \<open>math.floor(br / 100)\<close> raises \<open>TypeError\<close> when \<open>br\<close> is \<open>None\<close>.

  The quotient \<open>br / 100\<close> is a float division in the source and an exact one here. The
  two agree on the bitrates a relinker or a manifest gives (integers and floats below
  \<open>2^53\<close>); beyond that the source rounds, or raises \<open>OverflowError\<close> for an integer
  too large for a float, and such numbers are outside this model.
\<close>

fun format_copy_loop :: "rat option \<Rightarrow> format list \<Rightarrow> format option \<Rightarrow> error + format option" where
  "format_copy_loop br [] format_copy = Inr format_copy"
| "format_copy_loop br (f # fs) format_copy =
     (case f_tbr f of
        None \<Rightarrow> format_copy_loop br fs format_copy
      | Some ft \<Rightarrow>
          if ft = 0 then format_copy_loop br fs format_copy
          else
            (case br of
               None \<Rightarrow> Inl TypeError
             | Some b \<Rightarrow>
                 (let br_limit = \<lfloor>b / 100\<rfloor> in
                  if br_limit - 1 \<le> \<lfloor>ft / 100\<rfloor> \<and> \<lfloor>ft / 100\<rfloor> \<le> br_limit + 1
                  then format_copy_loop br fs (Some f)
                  else format_copy_loop br fs format_copy)))"

definition get_format_info :: "utils \<Rightarrow> format list \<Rightarrow> string \<Rightarrow> error + format" where
  "get_format_info U fmts tbr0 =
     (let br0 = map_option of_int (int_or_none U (Some tbr0));
          br = (if length fmts = 1 \<and> \<not> truthy_num br0 then f_tbr (hd fmts) else br0);
          tbr = (case br of
                   None \<Rightarrow> ''250''
                 | Some b \<Rightarrow> if b \<noteq> 0 \<and> b > 300 then str_int (\<lfloor>b / 100\<rfloor> * 100) else ''250'')
      in case format_copy_loop br fmts None of
           Inl e \<Rightarrow> Inl e
         | Inr (Some format_copy) \<Rightarrow>
             Inr (empty_format\<lparr>
               f_width := f_width format_copy,
               f_height := f_height format_copy,
               f_tbr := f_tbr format_copy,
               f_vcodec := f_vcodec format_copy,
               f_acodec := f_acodec format_copy,
               f_fps := f_fps format_copy,
               f_format_id := Some (''https-'' @ tbr)\<rparr>)
         | Inr None \<Rightarrow>
             (case map_of QUALITY tbr of
                None \<Rightarrow> Inl KeyError
              | Some (w, h) \<Rightarrow>
                  Inr (empty_format\<lparr>
                    f_width := Some w,
                    f_height := Some h,
                    f_format_id := Some (''https-'' @ tbr),
                    f_tbr := Some (of_int (int_of_digits tbr))\<rparr>)))"

text \<open>Lines 199-207: one descriptor per quality token; the first error ends the loop.\<close>

fun quality_loop :: "utils \<Rightarrow> string \<Rightarrow> format list \<Rightarrow> string list \<Rightarrow> error + format list" where
  "quality_loop U relinker_url fmts [] = Inr []"
| "quality_loop U relinker_url fmts (q # qs) =
     (case get_format_info U fmts q of
        Inl e \<Rightarrow> Inl e
      | Inr info \<Rightarrow>
          (case quality_loop U relinker_url fmts qs of
             Inl e \<Rightarrow> Inl e
           | Inr rest \<Rightarrow>
               Inr (info\<lparr>f_url := Some (MP4_TMPL relinker_url q),
                          f_protocol := Some ''https'', f_ext := Some ''mp4''\<rparr> # rest)))"

definition available_qualities :: "string option \<Rightarrow> string list" where
  "available_qualities quality =
     filter (\<lambda>i. i \<noteq> [])
       (case quality of
          None \<Rightarrow> [''*'']
        | Some q \<Rightarrow> if q \<noteq> [] then split_on CHR '','' q else [''*''])"

definition create_http_urls ::
  "utils \<Rightarrow> env \<Rightarrow> string \<Rightarrow> format list \<Rightarrow> (error + format list) \<times> event list" where
  "create_http_urls U E relinker_url fmts0 =
     (let fmts = filter (\<lambda>f. f_vcodec f \<noteq> Some ''none'') fmts0;
          probe_url = MP4_TMPL relinker_url ''*''
      in case test_url E probe_url of
           TUrl loc \<Rightarrow>
             (case relinker_reg U
                     (case test_url E relinker_url of TUrl t \<Rightarrow> t | _ \<Rightarrow> [])
              of
                None \<Rightarrow> (Inr [], [HeadRequest probe_url, HeadRequest relinker_url])
              | Some quality \<Rightarrow>
                  (quality_loop U relinker_url fmts (available_qualities quality),
                   [HeadRequest probe_url, HeadRequest relinker_url]))
         | _ \<Rightarrow> (Inr [], [HeadRequest probe_url]))"

text \<open>
  Modelled from the spec: \<open>raise_geo_restricted\<close> is a method of the framework class
  \<open>InfoExtractor\<close>, which is not part of \<open>rai.py\<close>; it is "a typed failure carrying the
  restricted-country list and a flag indicating partial metadata availability".
\<close>

definition raise_geo_restricted :: "string list \<Rightarrow> bool \<Rightarrow> error" where
  "raise_geo_restricted countries metadata_available =
     GeoRestricted countries metadata_available"

text \<open>
  \<open>_extract_relinker_info(relinker_url, video_id, audio_only)\<close>: the result or the
  exception raised, and the requests made. \<open>video_id\<close> only labels the requests.
\<close>

definition extract_relinker_info ::
  "utils \<Rightarrow> env \<Rightarrow> string \<Rightarrow> string \<Rightarrow> bool \<Rightarrow> (error + outcome) \<times> event list" where
  "extract_relinker_info U E relinker_url video_id audio_only =
     (if \<not> re_match_http relinker_url then
        (Inr \<lparr>o_is_live = None, o_duration = None,
              o_formats = [empty_format\<lparr>f_url := Some relinker_url\<rparr>]\<rparr>, [])
      else
        case run_probes U E relinker_url of
          (Some e, st) \<Rightarrow> (Inl e, ls_trace st)
        | (None, st) \<Rightarrow>
            if ls_formats st = [] \<and> ls_geoprotection st = Some True then
              (Inl (raise_geo_restricted GEO_COUNTRIES True), ls_trace st)
            else if audio_only then
              (Inr \<lparr>o_is_live = ls_is_live st, o_duration = ls_duration st,
                    o_formats = ls_formats st\<rparr>, ls_trace st)
            else
              (case create_http_urls U E relinker_url (ls_formats st) of
                 (Inl e, tr) \<Rightarrow> (Inl e, ls_trace st @ tr)
               | (Inr https, tr) \<Rightarrow>
                   (Inr \<lparr>o_is_live = ls_is_live st, o_duration = ls_duration st,
                         o_formats = ls_formats st @ https\<rparr>, ls_trace st @ tr)))"

section \<open>\<open>_extract_subtitles\<close>\<close>

text \<open>
  \<open>video_data\<close> is a decoded JSON object: a dictionary from strings to JSON values, kept
  as an association list (\<open>map_of\<close> reads it).
\<close>

datatype json =
    JNull
  | JBool bool
  | JNum rat
  | JStr string
  | JArr "json list"
  | JObj "(string \<times> json) list"

text \<open>Python's truth value of a decoded JSON value.\<close>

fun py_truthy :: "json \<Rightarrow> bool" where
  "py_truthy JNull = False"
| "py_truthy (JBool b) = b"
| "py_truthy (JNum x) = (x \<noteq> 0)"
| "py_truthy (JStr s) = (s \<noteq> [])"
| "py_truthy (JArr xs) = (xs \<noteq> [])"
| "py_truthy (JObj kvs) = (kvs \<noteq> [])"

text \<open>\<open>d.get(k)\<close>: \<open>None\<close> (here \<open>JNull\<close>) for a missing key.\<close>

definition dict_get :: "(string \<times> json) list \<Rightarrow> string \<Rightarrow> json" where
  "dict_get d k = (case map_of d k of None \<Rightarrow> JNull | Some v \<Rightarrow> v)"

text \<open>\<open>d[k] = v\<close> for a key that may or may not be there; the position of an existing key is kept.\<close>

fun dict_set :: "(string \<times> json) list \<Rightarrow> string \<Rightarrow> json \<Rightarrow> (string \<times> json) list" where
  "dict_set [] k v = [(k, v)]"
| "dict_set ((k', v') # rest) k v =
     (if k' = k then (k, v) # rest else (k', v') # dict_set rest k v)"

record variant =
  sv_ext :: string
  sv_url :: "string option"

text \<open>
  The result dictionary, in insertion order. Its keys are the \<open>language\<close> values, which
  may be any hashable JSON value: lists and objects are not hashable, and \<open>True\<close> and \<open>1\<close>
  are the same key.
\<close>

type_synonym subtitles = "(json \<times> variant list) list"

fun hashable :: "json \<Rightarrow> bool" where
  "hashable (JArr xs) = False"
| "hashable (JObj kvs) = False"
| "hashable v = True"

fun key_norm :: "json \<Rightarrow> json" where
  "key_norm (JBool b) = JNum (if b then 1 else 0)"
| "key_norm v = v"

definition key_eq :: "json \<Rightarrow> json \<Rightarrow> bool" where
  "key_eq a b = (key_norm a = key_norm b)"

text \<open>\<open>subtitles.setdefault(k, []).append(v)\<close>, and \<open>subtitles[k].append(v)\<close> for a key that is there.\<close>

fun dict_append :: "json \<Rightarrow> variant \<Rightarrow> subtitles \<Rightarrow> subtitles" where
  "dict_append k v [] = [(k, [v])]"
| "dict_append k v ((k', vs) # rest) =
     (if key_eq k' k then (k', vs @ [v]) # rest else (k', vs) # dict_append k v rest)"

text \<open>Lines 219-232: the body of the loop over \<open>subtitles_array\<close>, for one entry.\<close>

definition subtitle_step :: "utils \<Rightarrow> string \<Rightarrow> json \<Rightarrow> subtitles \<Rightarrow> error + subtitles" where
  "subtitle_step U url subtitle subs =
     (case subtitle of
        JObj d \<Rightarrow>
          (case dict_get d ''url'' of
             JStr s \<Rightarrow>
               if s \<noteq> [] then
                 (let sub_lang = (if py_truthy (dict_get d ''language'')
                                  then dict_get d ''language'' else JStr ''it'');
                      sub_url = urljoin U url s;
                      sub_ext = determine_ext U sub_url ''srt''
                  in if \<not> hashable sub_lang then Inl TypeError
                     else
                       let subs1 = dict_append sub_lang
                                     \<lparr>sv_ext = sub_ext, sv_url = sub_url\<rparr> subs
                       in if ''stl'' = sub_ext then
                            (case sub_url of
                               None \<Rightarrow> Inl TypeError
                             | Some su \<Rightarrow>
                                 Inr (dict_append sub_lang
                                        \<lparr>sv_ext = ''srt'',
                                         sv_url = Some (take (length su - 3) su @ ''srt'')\<rparr>
                                        subs1))
                          else Inr subs1)
               else Inr subs
           | _ \<Rightarrow> Inr subs)
      | _ \<Rightarrow> Inl AttributeError)"

fun subtitle_loop :: "utils \<Rightarrow> string \<Rightarrow> json list \<Rightarrow> subtitles \<Rightarrow> error + subtitles" where
  "subtitle_loop U url [] subs = Inr subs"
| "subtitle_loop U url (subtitle # rest) subs =
     (case subtitle_step U url subtitle subs of
        Inl e \<Rightarrow> Inl e
      | Inr subs' \<Rightarrow> subtitle_loop U url rest subs')"

text \<open>
  \<open>_extract_subtitles(url, video_data)\<close>: the result or the exception, and \<open>video_data\<close>
  as the call leaves it. \<open>video_data.get('subtitlesArray') or []\<close> is the caller's own list
  when that is truthy, and a fresh list otherwise; \<open>append\<close> exists on lists only.
\<close>

definition extract_subtitles ::
  "utils \<Rightarrow> string \<Rightarrow> (string \<times> json) list \<Rightarrow> (error + subtitles) \<times> (string \<times> json) list" where
  "extract_subtitles U url video_data =
     (let arr = dict_get video_data ''subtitlesArray'';
          legacy = map (\<lambda>k. JObj [(''url'', dict_get video_data k)])
                     [''subtitles'', ''subtitlesUrl'']
      in if py_truthy arr then
           (case arr of
              JArr xs \<Rightarrow>
                (subtitle_loop U url (xs @ legacy) [],
                 dict_set video_data ''subtitlesArray'' (JArr (xs @ legacy)))
            | _ \<Rightarrow> (Inl AttributeError, video_data))
         else (subtitle_loop U url legacy [], video_data))"

section \<open>Notions used to state the properties\<close>

text \<open>The platforms requested according to a trace, and the documents they answered with.\<close>

fun event_platform :: "event \<Rightarrow> platform list" where
  "event_platform (DownloadXml u pl) = [pl]"
| "event_platform e = []"

definition probed :: "event list \<Rightarrow> platform list" where
  "probed tr = concat (map event_platform tr)"

definition answer :: "env \<Rightarrow> string \<Rightarrow> platform \<Rightarrow> relinker_xml list" where
  "answer E relinker_url pl =
     (case download_xml E relinker_url pl of None \<Rightarrow> [] | Some r \<Rightarrow> [r])"

definition seen :: "env \<Rightarrow> string \<Rightarrow> event list \<Rightarrow> relinker_xml list" where
  "seen E relinker_url tr = concat (map (answer E relinker_url) (probed tr))"

text \<open>The DRM report that precedes the handling of a document with a licence reference.\<close>

definition drm_events :: "relinker_xml \<Rightarrow> event list" where
  "drm_events r = (if has_license r then [ReportDrm] else [])"

text \<open>
  The first-wins law in the specification's words: the first present value, in profile
  order. A flag element is present with value \<open>Y\<close> (true) or any other text (false).
\<close>

fun first_present :: "'a option list \<Rightarrow> 'a option" where
  "first_present [] = None"
| "first_present (None # vs) = first_present vs"
| "first_present (Some v # vs) = Some v"

definition declared_flag :: "string option \<Rightarrow> bool option" where
  "declared_flag t = map_option (\<lambda>s. s = ''Y'') t"

text \<open>
  What the loop variables hold after the documents seen so far; these two functions
  only serve to state the invariant of the loop. A flag variable is unset before the
  first document, then true when some document seen declares \<open>Y\<close>. The duration
  variable is the first non-zero parsed duration, and without one whatever the last
  document seen gave.
\<close>

definition flag_law :: "string option list \<Rightarrow> bool option" where
  "flag_law ts = (if ts = [] then None else Some (Some ''Y'' \<in> set ts))"

definition dur_law :: "rat option list \<Rightarrow> rat option" where
  "dur_law ds =
     (case filter truthy_num ds of
        d # _ \<Rightarrow> d
      | [] \<Rightarrow> if ds = [] then None else last ds)"

text \<open>
  The loop run over the first platforms of the list for as long as each iteration goes on
  to the next one: the state in which the following platform is reached, or \<open>None\<close> when
  an iteration before it raised or left the loop.
\<close>

fun continue_through :: "utils \<Rightarrow> env \<Rightarrow> string \<Rightarrow> platform list \<Rightarrow> lstate \<Rightarrow> lstate option" where
  "continue_through U E relinker_url [] st = Some st"
| "continue_through U E relinker_url (pl # pls) st =
     (case probe U E relinker_url pl st of
        Continue st' \<Rightarrow> continue_through U E relinker_url pls st'
      | _ \<Rightarrow> None)"

text \<open>The invariant of the loop state.\<close>

definition law_inv :: "utils \<Rightarrow> env \<Rightarrow> string \<Rightarrow> lstate \<Rightarrow> bool" where
  "law_inv U E u st \<longleftrightarrow>
     ls_geoprotection st = flag_law (map x_geoprotection (seen E u (ls_trace st))) \<and>
     ls_is_live st = flag_law (map x_is_live (seen E u (ls_trace st))) \<and>
     ls_duration st = dur_law (map (\<lambda>r. parse_duration U (x_duration r)) (seen E u (ls_trace st)))"

section \<open>A concrete instance of the helpers and of the network\<close>

text \<open>
  The theorems below hold for every helper record and every environment. To run the
  definitions on concrete inputs, \<open>sample_utils\<close> gives each helper of \<open>yt_dlp.utils\<close> a small
  executable stand-in that agrees with the library on the inputs used in the examples:
  \<^item> \<open>determine_ext\<close>: the text after the last dot of the part before \<open>?\<close>, when it is
    alphanumeric, else the default (the library's list of known extensions followed by
    slashes is left out);
  \<^item> \<open>int_or_none\<close>: optionally signed ASCII decimal numerals, else \<open>None\<close>;
  \<^item> \<open>parse_duration\<close>: a plain number of seconds, else \<open>None\<close>;
  \<^item> \<open>urljoin\<close>: an absolute \<open>http(s)\<close> or protocol-relative path is returned as it is
    (relative paths are not joined);
  \<^item> \<open>relinker_reg\<close>: the outcome of \<open>_RELINKER_REG\<close> on the redirect targets used below
    (the \<open>id\<close> group \<open>\w+\<close> is greedy and takes underscores and digits, so a quality group
    is captured only when a comma follows the first token).
\<close>

definition is_digit :: "char \<Rightarrow> bool" where
  "is_digit c = (48 \<le> (of_char c :: nat) \<and> (of_char c :: nat) \<le> 57)"

definition is_alnum :: "char \<Rightarrow> bool" where
  "is_alnum c = (is_digit c \<or> (97 \<le> (of_char c :: nat) \<and> (of_char c :: nat) \<le> 122)
       \<or> (65 \<le> (of_char c :: nat) \<and> (of_char c :: nat) \<le> 90))"

definition sample_determine_ext :: "string option \<Rightarrow> string \<Rightarrow> string" where
  "sample_determine_ext url default_ext =
     (case url of
        None \<Rightarrow> default_ext
      | Some u \<Rightarrow>
          if CHR ''.'' \<notin> set u then default_ext
          else
            let guess = last (split_on CHR ''.'' (takeWhile (\<lambda>c. c \<noteq> CHR ''?'') u))
            in if guess \<noteq> [] \<and> list_all is_alnum guess then guess else default_ext)"

definition sample_int_or_none :: "string option \<Rightarrow> int option" where
  "sample_int_or_none v =
     (case v of
        None \<Rightarrow> None
      | Some s \<Rightarrow>
          if s \<noteq> [] \<and> list_all is_digit s then Some (int_of_digits s)
          else if s \<noteq> [] \<and> hd s = CHR ''-'' \<and> tl s \<noteq> [] \<and> list_all is_digit (tl s)
          then Some (- int_of_digits (tl s))
          else None)"

definition sample_parse_duration :: "string option \<Rightarrow> rat option" where
  "sample_parse_duration v =
     (case v of
        None \<Rightarrow> None
      | Some s \<Rightarrow>
          if s \<noteq> [] \<and> list_all is_digit s then Some (of_int (int_of_digits s)) else None)"

definition sample_urljoin :: "string \<Rightarrow> string \<Rightarrow> string option" where
  "sample_urljoin base path =
     (if path \<noteq> [] \<and> (re_match_http path \<or> prefix ''//'' path) then Some path else None)"

definition sample_update_url_query :: "string \<Rightarrow> (string \<times> string) list \<Rightarrow> string" where
  "sample_update_url_query u query =
     u @ ''?'' @ concat (map (\<lambda>(k, v). k @ ''='' @ v @ ''&'') query)"

definition sample_relinker_reg :: "string \<Rightarrow> string option option" where
  "sample_relinker_reg u =
     (if u = ''https://host/extra/path/id.mp4?a'' then Some None
      else if u = ''https://host/extra/path/id_250,400.mp4?a'' then Some (Some ''250,400'')
      else if u = ''https://host/extra/path/id_500,600.mp4?a'' then Some (Some ''500,600'')
      else None)"

definition sample_utils :: utils where
  "sample_utils = \<lparr>parse_duration = sample_parse_duration,
     determine_ext = sample_determine_ext,
     int_or_none = sample_int_or_none,
     update_url_query = sample_update_url_query,
     urljoin = sample_urljoin,
     relinker_reg = sample_relinker_reg\<rparr>"

definition empty_xml :: relinker_xml where
  "empty_xml = \<lparr>x_license_url = None, x_geoprotection = None, x_is_live = None,
     x_duration = None, x_url = None, x_bitrate = None\<rparr>"

text \<open>
  An environment that answers the three platform requests with the given documents,
  where reporting DRM returns, manifests expand to nothing and HEAD requests fail.
\<close>

definition sample_env :: "relinker_xml option \<Rightarrow> relinker_xml option \<Rightarrow> relinker_xml option \<Rightarrow> env" where
  "sample_env m f n = \<lparr>
     download_xml = (\<lambda>u pl. case pl of Mon \<Rightarrow> m | Flash \<Rightarrow> f | Native \<Rightarrow> n),
     drm_fatal = False,
     extract_m3u8_formats = (\<lambda>u. []),
     extract_f4m_formats = (\<lambda>u. []),
     request_webpage = (\<lambda>u. NoResponse)\<rparr>"

section \<open>Evaluating the sample instance\<close>

lemmas sample_defs = sample_utils_def sample_env_def sample_determine_ext_def sample_int_or_none_def
  sample_parse_duration_def sample_urljoin_def sample_update_url_query_def sample_relinker_reg_def
  empty_xml_def is_digit_def is_alnum_def

section \<open>The degenerate input\<close>

text \<open>
  C4 (as the code has it). An input that does not start with \<open>http://\<close> or \<open>https://\<close> does
  not fail: the function returns at once an outcome whose only format has the literal
  string as its URL, with neither \<open>is_live\<close> nor \<open>duration\<close>, and no request is made.
\<close>

theorem non_url_returns_raw_format:
  "\<not> re_match_http relinker_url \<Longrightarrow>
   extract_relinker_info U E relinker_url video_id audio_only =
     (Inr \<lparr>o_is_live = None, o_duration = None,
           o_formats = [empty_format\<lparr>f_url := Some relinker_url\<rparr>]\<rparr>, [])"
  by (simp add: extract_relinker_info_def)

theorem non_url_returns_raw_format_witness:
  "\<not> re_match_http ''rtmp://host/stream'' \<and>
   extract_relinker_info sample_utils (sample_env None None None) ''rtmp://host/stream'' ''id'' False =
     (Inr \<lparr>o_is_live = None, o_duration = None,
           o_formats = [empty_format\<lparr>f_url := Some ''rtmp://host/stream''\<rparr>]\<rparr>, [])"
proof -
  have h: "\<not> re_match_http ''rtmp://host/stream''" by (simp add: re_match_http_def)
  show ?thesis using h non_url_returns_raw_format [OF h] by simp
qed

text \<open>
  C4 as stated ("fails with an UnsupportedInput error") does not hold: on
  \<open>rtmp://host/stream\<close> the function returns a value.
\<close>

theorem non_url_does_not_fail:
  "\<not> isl (fst (extract_relinker_info sample_utils (sample_env None None None)
                  ''rtmp://host/stream'' ''id'' False))"
  by (simp add: extract_relinker_info_def re_match_http_def)

section \<open>Subtitles\<close>

lemma dict_get_dict_set: "dict_get (dict_set d k v) k = v"
  by (induction d) (auto simp: dict_get_def)

text \<open>
  C9. For the record \<open>{subtitles: "http://x/a.stl"}\<close>, where \<open>urljoin\<close> returns the absolute
  URL unchanged and \<open>determine_ext\<close> finds \<open>stl\<close>, the result has the single key \<open>it\<close> with
  the \<open>stl\<close> variant at the given URL followed by the \<open>srt\<close> variant at the URL with the
  suffix replaced. For every record with none of the three subtitle fields, the result
  is the empty mapping, nothing is raised and the record is left as it was.
\<close>

theorem subtitles_legacy_stl:
  "(urljoin U url ''http://x/a.stl'' = Some ''http://x/a.stl'' \<and>
    determine_ext U (Some ''http://x/a.stl'') ''srt'' = ''stl'' \<longrightarrow>
    fst (extract_subtitles U url [(''subtitles'', JStr ''http://x/a.stl'')]) =
      Inr [(JStr ''it'', [\<lparr>sv_ext = ''stl'', sv_url = Some ''http://x/a.stl''\<rparr>,
                          \<lparr>sv_ext = ''srt'', sv_url = Some ''http://x/a.srt''\<rparr>])]) \<and>
   (map_of video_data ''subtitlesArray'' = None \<and> map_of video_data ''subtitles'' = None \<and>
    map_of video_data ''subtitlesUrl'' = None \<longrightarrow>
    extract_subtitles U url video_data = (Inr [], video_data))"
proof (intro conjI impI)
  assume h: "urljoin U url ''http://x/a.stl'' = Some ''http://x/a.stl'' \<and>
    determine_ext U (Some ''http://x/a.stl'') ''srt'' = ''stl''"
  have 1: "subtitle_step U url (JObj [(''url'', JStr ''http://x/a.stl'')]) [] =
      Inr [(JStr ''it'', [\<lparr>sv_ext = ''stl'', sv_url = Some ''http://x/a.stl''\<rparr>,
                          \<lparr>sv_ext = ''srt'', sv_url = Some ''http://x/a.srt''\<rparr>])]"
    using h by (simp add: subtitle_step_def dict_get_def Let_def key_eq_def)
  have 2: "subtitle_step U url (JObj [(''url'', JNull)]) subs = Inr subs" for subs
    by (simp add: subtitle_step_def dict_get_def)
  show "fst (extract_subtitles U url [(''subtitles'', JStr ''http://x/a.stl'')]) =
      Inr [(JStr ''it'', [\<lparr>sv_ext = ''stl'', sv_url = Some ''http://x/a.stl''\<rparr>,
                          \<lparr>sv_ext = ''srt'', sv_url = Some ''http://x/a.srt''\<rparr>])]"
    by (simp add: extract_subtitles_def dict_get_def 1 2)
next
  assume "map_of video_data ''subtitlesArray'' = None \<and> map_of video_data ''subtitles'' = None \<and>
    map_of video_data ''subtitlesUrl'' = None"
  then show "extract_subtitles U url video_data = (Inr [], video_data)"
    by (simp add: extract_subtitles_def dict_get_def subtitle_step_def)
qed

theorem subtitles_legacy_stl_witness:
  "urljoin sample_utils ''http://page/'' ''http://x/a.stl'' = Some ''http://x/a.stl'' \<and>
   determine_ext sample_utils (Some ''http://x/a.stl'') ''srt'' = ''stl'' \<and>
   fst (extract_subtitles sample_utils ''http://page/'' [(''subtitles'', JStr ''http://x/a.stl'')]) =
      Inr [(JStr ''it'', [\<lparr>sv_ext = ''stl'', sv_url = Some ''http://x/a.stl''\<rparr>,
                          \<lparr>sv_ext = ''srt'', sv_url = Some ''http://x/a.srt''\<rparr>])] \<and>
   map_of [(''title'', JStr ''t'')] ''subtitlesArray'' = None \<and>
   map_of [(''title'', JStr ''t'')] ''subtitles'' = None \<and>
   map_of [(''title'', JStr ''t'')] ''subtitlesUrl'' = None \<and>
   extract_subtitles sample_utils ''http://page/'' [(''title'', JStr ''t'')] =
     (Inr [], [(''title'', JStr ''t'')])"
proof -
  have a: "urljoin sample_utils ''http://page/'' ''http://x/a.stl'' = Some ''http://x/a.stl''"
    by (simp add: sample_utils_def sample_urljoin_def re_match_http_def)
  have b: "determine_ext sample_utils (Some ''http://x/a.stl'') ''srt'' = ''stl''"
    by (simp add: sample_defs)
  have c: "map_of [(''title'', JStr ''t'')] ''subtitlesArray'' = None \<and>
   map_of [(''title'', JStr ''t'')] ''subtitles'' = None \<and>
   map_of [(''title'', JStr ''t'')] ''subtitlesUrl'' = None" by simp
  show ?thesis
    using a b c subtitles_legacy_stl [of sample_utils "''http://page/''" "[(''title'', JStr ''t'')]"]
    by blast
qed

text \<open>
  C10. When \<open>subtitlesArray\<close> is a non-empty list, the call appends two entries, built
  from the fields \<open>subtitles\<close> and \<open>subtitlesUrl\<close> (\<open>JNull\<close> when absent), to that very list:
  the caller's record is changed.
\<close>

theorem subtitles_array_mutated:
  assumes "dict_get video_data ''subtitlesArray'' = JArr xs" and "xs \<noteq> []"
  shows "snd (extract_subtitles U url video_data) =
           dict_set video_data ''subtitlesArray''
             (JArr (xs @ [JObj [(''url'', dict_get video_data ''subtitles'')],
                          JObj [(''url'', dict_get video_data ''subtitlesUrl'')]]))
         \<and> dict_get (snd (extract_subtitles U url video_data)) ''subtitlesArray'' =
             JArr (xs @ [JObj [(''url'', dict_get video_data ''subtitles'')],
                         JObj [(''url'', dict_get video_data ''subtitlesUrl'')]])
         \<and> snd (extract_subtitles U url video_data) \<noteq> video_data"
proof -
  let ?ys = "xs @ [JObj [(''url'', dict_get video_data ''subtitles'')],
                   JObj [(''url'', dict_get video_data ''subtitlesUrl'')]]"
  have s: "snd (extract_subtitles U url video_data) =
             dict_set video_data ''subtitlesArray'' (JArr ?ys)"
    using assms by (simp add: extract_subtitles_def Let_def)
  have g: "dict_get (snd (extract_subtitles U url video_data)) ''subtitlesArray'' = JArr ?ys"
    unfolding s by (rule dict_get_dict_set)
  have "JArr ?ys \<noteq> JArr xs" by simp
  with g assms(1) have "snd (extract_subtitles U url video_data) \<noteq> video_data" by metis
  with s g show ?thesis by simp
qed

theorem subtitles_array_mutated_witness:
  "dict_get [(''subtitlesArray'', JArr [JObj [(''url'', JStr ''http://x/b.srt''), (''language'', JStr ''en'')]])]
      ''subtitlesArray'' = JArr [JObj [(''url'', JStr ''http://x/b.srt''), (''language'', JStr ''en'')]] \<and>
   snd (extract_subtitles sample_utils ''http://page/''
          [(''subtitlesArray'', JArr [JObj [(''url'', JStr ''http://x/b.srt''), (''language'', JStr ''en'')]])]) =
     [(''subtitlesArray'', JArr [JObj [(''url'', JStr ''http://x/b.srt''), (''language'', JStr ''en'')],
                                 JObj [(''url'', JNull)], JObj [(''url'', JNull)]])]"
proof -
  let ?xs = "[JObj [(''url'', JStr ''http://x/b.srt''), (''language'', JStr ''en'')]]"
  have h: "dict_get [(''subtitlesArray'', JArr ?xs)] ''subtitlesArray'' = JArr ?xs"
    by (simp add: dict_get_def)
  have n: "?xs \<noteq> []" by simp
  show ?thesis
    using h subtitles_array_mutated [OF h n, of sample_utils "''http://page/''"]
    by (simp add: dict_get_def)
qed


section \<open>Facts about the loop over the platforms\<close>

lemma probed_append [simp]: "probed (a @ b) = probed a @ probed b"
  by (simp add: probed_def)

lemma probed_Nil [simp]: "probed [] = []"
  by (simp add: probed_def)

lemma probed_Cons [simp]: "probed (e # tr) = event_platform e @ probed tr"
  by (simp add: probed_def)

lemma probed_drm_events [simp]: "probed (drm_events r) = []"
  by (simp add: drm_events_def)

lemma seen_append [simp]: "seen E u (a @ b) = seen E u a @ seen E u b"
  by (simp add: seen_def)

text \<open>What one iteration does when it does not raise.\<close>

lemma classify_normal:
  assumes "classify U E pl r st = Continue st' \<or> classify U E pl r st = Break st'"
  shows "ls_geoprotection st' = ls_geoprotection st \<and> ls_is_live st' = ls_is_live st \<and>
         ls_duration st' = ls_duration st \<and> probed (ls_trace st') = probed (ls_trace st)"
  using assms
  by (auto simp: classify_def Let_def add_formats_def log_event_def
           split: option.splits if_splits)

lemma probe_normal:
  assumes "probe U E u pl st = Continue st' \<or> probe U E u pl st = Break st'"
  shows "\<exists>r. download_xml E u pl = Some r \<and>
             ls_geoprotection st' = ls_geoprotection (latch U r st) \<and>
             ls_is_live st' = ls_is_live (latch U r st) \<and>
             ls_duration st' = ls_duration (latch U r st) \<and>
             probed (ls_trace st') = probed (ls_trace st) @ [pl]"
proof (cases "download_xml E u pl")
  case None
  with assms show ?thesis by (simp add: probe_def Let_def)
next
  case (Some r)
  let ?st1 = "log_event (DownloadXml u pl) st"
  let ?st2 = "if has_license r then log_event ReportDrm ?st1 else ?st1"
  from assms Some have c: "classify U E pl r (latch U r ?st2) = Continue st' \<or>
      classify U E pl r (latch U r ?st2) = Break st'"
    by (auto simp: probe_def Let_def split: if_splits)
  from classify_normal [OF c] Some show ?thesis
    by (auto simp: latch_def log_event_def)
qed

lemma flag_law_snoc:
  "flag_law (ts @ [t]) = (if flag_law ts \<noteq> Some True then Some (t = Some ''Y'') else flag_law ts)"
  by (auto simp: flag_law_def)

lemma dur_law_snoc:
  "dur_law (ds @ [d]) = (if \<not> truthy_num (dur_law ds) then d else dur_law ds)"
proof (cases "filter truthy_num ds")
  case Nil
  then have "\<not> truthy_num (dur_law ds)"
    by (cases "ds = []") (auto simp: dur_law_def truthy_num_def filter_empty_conv)
  with Nil show ?thesis by (auto simp: dur_law_def)
next
  case (Cons a as)
  then have "a \<in> set (filter truthy_num ds)" by simp
  then have "truthy_num a" by simp
  with Cons show ?thesis by (simp add: dur_law_def)
qed

lemma seen_probed_snoc:
  "probed tr' = probed tr @ [pl] \<Longrightarrow> download_xml E u pl = Some r \<Longrightarrow> seen E u tr' = seen E u tr @ [r]"
  by (simp add: seen_def answer_def)

lemma probe_law_inv:
  assumes "probe U E u pl st = Continue st' \<or> probe U E u pl st = Break st'"
    and "law_inv U E u st"
  shows "law_inv U E u st'"
proof -
  from probe_normal [OF assms(1)] obtain r where r: "download_xml E u pl = Some r"
    and g: "ls_geoprotection st' = ls_geoprotection (latch U r st)"
    and l: "ls_is_live st' = ls_is_live (latch U r st)"
    and d: "ls_duration st' = ls_duration (latch U r st)"
    and p: "probed (ls_trace st') = probed (ls_trace st) @ [pl]" by blast
  have s: "seen E u (ls_trace st') = seen E u (ls_trace st) @ [r]"
    by (rule seen_probed_snoc [OF p r])
  show ?thesis
    using assms(2) unfolding law_inv_def s g l d
    by (simp add: flag_law_snoc dur_law_snoc latch_def)
qed

lemma loop_law_inv:
  "relinker_loop U E u pls st = (None, st') \<Longrightarrow> law_inv U E u st \<Longrightarrow> law_inv U E u st'"
proof (induction pls arbitrary: st)
  case Nil
  then show ?case by simp
next
  case (Cons pl pls)
  show ?case
  proof (cases "probe U E u pl st")
    case (Continue s)
    with Cons.prems have "relinker_loop U E u pls s = (None, st')" by simp
    moreover have "law_inv U E u s" using probe_law_inv Continue Cons.prems(2) by blast
    ultimately show ?thesis by (rule Cons.IH)
  next
    case (Break s)
    with Cons.prems have "s = st'" by simp
    with probe_law_inv Break Cons.prems(2) show ?thesis by blast
  next
    case (Raise e s)
    with Cons.prems show ?thesis by simp
  qed
qed

lemma init_law_inv: "law_inv U E u init_state"
  by (simp add: law_inv_def init_state_def seen_def probed_def flag_law_def dur_law_def)

lemma run_probes_law: "run_probes U E u = (None, st) \<Longrightarrow> law_inv U E u st"
  unfolding run_probes_def by (erule loop_law_inv) (rule init_law_inv)

lemma classify_formats:
  assumes "classify U E pl r st = Continue st' \<or> classify U E pl r st = Break st'"
  shows "\<exists>fs. ls_formats st' = ls_formats st @ fs"
  using assms
  by (auto simp: classify_def Let_def add_formats_def log_event_def
           split: option.splits if_splits)

lemma classify_break:
  assumes "classify U E pl r st = Break st'"
  shows "ls_formats st' \<noteq> []"
  using assms
  by (auto simp: classify_def Let_def add_formats_def log_event_def
           split: option.splits if_splits)

lemma classify_raise:
  assumes "classify U E pl r st = Raise e st'"
  shows "e = TypeError"
  using assms
  by (auto simp: classify_def Let_def add_formats_def log_event_def
           split: option.splits if_splits)

lemma probe_classify:
  assumes "download_xml E u pl = Some r" and "has_license r \<longrightarrow> \<not> drm_fatal E"
  shows "probe U E u pl st =
           classify U E pl r
             (latch U r (st\<lparr>ls_trace := ls_trace st @ DownloadXml u pl # drm_events r\<rparr>))"
  using assms by (simp add: probe_def Let_def log_event_def drm_events_def)

lemma latch_formats [simp]: "ls_formats (latch U r st) = ls_formats st"
  by (simp add: latch_def)

lemma probe_cases:
  "(\<exists>r st0. download_xml E u pl = Some r \<and> ls_formats st0 = ls_formats st \<and>
        probe U E u pl st = classify U E pl r st0) \<or>
   (\<exists>st'. probe U E u pl st = Raise ExtractorError st')"
proof (cases "download_xml E u pl")
  case None
  then show ?thesis by (simp add: probe_def Let_def)
next
  case (Some r)
  show ?thesis
  proof (cases "has_license r \<and> drm_fatal E")
    case True
    with Some show ?thesis by (simp add: probe_def Let_def)
  next
    case False
    then have "has_license r \<longrightarrow> \<not> drm_fatal E" by blast
    from probe_classify [OF Some this, of U st] Some show ?thesis
      by (intro disjI1 exI [of _ r]
            exI [of _ "latch U r (st\<lparr>ls_trace := ls_trace st @ DownloadXml u pl # drm_events r\<rparr>)"])
         simp
  qed
qed

lemma probe_formats:
  assumes "probe U E u pl st = Continue st' \<or> probe U E u pl st = Break st'"
  shows "\<exists>fs. ls_formats st' = ls_formats st @ fs"
  using assms probe_cases [of E u pl st U] classify_formats by (metis step.distinct(3,5))

lemma probe_break:
  assumes "probe U E u pl st = Break st'"
  shows "ls_formats st' \<noteq> []"
  using assms probe_cases [of E u pl st U] classify_break by (metis step.distinct(5))

lemma probe_raise:
  assumes "probe U E u pl st = Raise e st'"
  shows "e = ExtractorError \<or> e = TypeError"
  using assms probe_cases [of E u pl st U] classify_raise by (metis step.inject(3))

lemma loop_raise:
  "relinker_loop U E u pls st = (Some e, st') \<Longrightarrow> e = ExtractorError \<or> e = TypeError"
proof (induction pls arbitrary: st)
  case Nil
  then show ?case by simp
next
  case (Cons pl pls)
  show ?case
  proof (cases "probe U E u pl st")
    case (Continue s)
    with Cons show ?thesis by simp
  next
    case (Break s)
    with Cons.prems show ?thesis by simp
  next
    case (Raise e' s)
    with Cons.prems have "e' = e" by simp
    with Raise probe_raise show ?thesis by blast
  qed
qed

lemma loop_no_formats_all_probed:
  "relinker_loop U E u pls st = (None, st') \<Longrightarrow> ls_formats st' = [] \<Longrightarrow>
   probed (ls_trace st') = probed (ls_trace st) @ pls"
proof (induction pls arbitrary: st)
  case Nil
  then show ?case by simp
next
  case (Cons pl pls)
  show ?case
  proof (cases "probe U E u pl st")
    case (Continue s)
    with Cons.prems have l: "relinker_loop U E u pls s = (None, st')" by simp
    from probe_normal Continue have "probed (ls_trace s) = probed (ls_trace st) @ [pl]" by blast
    with Cons.IH [OF l Cons.prems(2)] show ?thesis by simp
  next
    case (Break s)
    with Cons.prems have "s = st'" by simp
    with Break probe_break Cons.prems(2) show ?thesis by blast
  next
    case (Raise e s)
    with Cons.prems show ?thesis by simp
  qed
qed

lemma format_copy_loop_err:
  "format_copy_loop br fs fc = Inl e \<Longrightarrow> e = TypeError"
  by (induction br fs fc rule: format_copy_loop.induct)
     (auto simp: Let_def split: option.splits if_splits)

lemma get_format_info_err:
  "get_format_info U fmts q = Inl e \<Longrightarrow> e = TypeError \<or> e = KeyError"
  by (auto simp: get_format_info_def Let_def split: sum.splits option.splits
           dest: format_copy_loop_err)

lemma quality_loop_err:
  "quality_loop U u fmts qs = Inl e \<Longrightarrow> e = TypeError \<or> e = KeyError"
  by (induction qs arbitrary: e) (auto split: sum.splits dest: get_format_info_err)

lemma create_http_urls_err:
  "fst (create_http_urls U E u fmts) = Inl e \<Longrightarrow> e = TypeError \<or> e = KeyError"
  by (auto simp: create_http_urls_def Let_def split: test_result.splits option.splits
           dest: quality_loop_err)

lemma create_http_urls_probed [simp]: "probed (snd (create_http_urls U E u fmts)) = []"
  by (auto simp: create_http_urls_def Let_def split: test_result.splits option.splits)

lemma continue_through_loop:
  "continue_through U E u pre st = Some st1 \<Longrightarrow>
   relinker_loop U E u (pre @ rest) st = relinker_loop U E u rest st1"
  by (induction pre arbitrary: st) (auto split: step.splits)

lemma continue_through_probed:
  "continue_through U E u pre st = Some st1 \<Longrightarrow>
   probed (ls_trace st1) = probed (ls_trace st) @ pre"
proof (induction pre arbitrary: st)
  case Nil
  then show ?case by simp
next
  case (Cons pl pre)
  then obtain s where s: "probe U E u pl st = Continue s"
    and c: "continue_through U E u pre s = Some st1"
    by (auto split: step.splits)
  from probe_normal s have "probed (ls_trace s) = probed (ls_trace st) @ [pl]" by blast
  with Cons.IH [OF c] show ?case by simp
qed

lemma loop_probed_prefix:
  "relinker_loop U E u pls st = (None, st') \<Longrightarrow>
   \<exists>pre. prefix pre pls \<and> (pls \<noteq> [] \<longrightarrow> pre \<noteq> []) \<and>
         probed (ls_trace st') = probed (ls_trace st) @ pre \<and>
         map (download_xml E u) pre = map Some (concat (map (answer E u) pre))"
proof (induction pls arbitrary: st)
  case Nil
  then show ?case by simp
next
  case (Cons pl pls)
  show ?case
  proof (cases "probe U E u pl st")
    case (Continue s)
    with Cons.prems have l: "relinker_loop U E u pls s = (None, st')" by simp
    from probe_normal Continue obtain r where r: "download_xml E u pl = Some r"
      and p: "probed (ls_trace s) = probed (ls_trace st) @ [pl]" by blast
    from Cons.IH [OF l] obtain pre where pre: "prefix pre pls"
      "probed (ls_trace st') = probed (ls_trace s) @ pre"
      "map (download_xml E u) pre = map Some (concat (map (answer E u) pre))" by blast
    have a: "answer E u pl = [r]" using r by (simp add: answer_def)
    show ?thesis
      by (rule exI [of _ "pl # pre"]) (use pre p r a in simp)
  next
    case (Break s)
    with Cons.prems have e: "s = st'" by simp
    from probe_normal Break obtain r where r: "download_xml E u pl = Some r"
      and p: "probed (ls_trace s) = probed (ls_trace st) @ [pl]" by blast
    have a: "answer E u pl = [r]" using r by (simp add: answer_def)
    show ?thesis
      by (rule exI [of _ "[pl]"]) (use e p r a in simp)
  next
    case (Raise e s)
    with Cons.prems show ?thesis by simp
  qed
qed

lemma run_probes_prefix:
  assumes "run_probes U E u = (None, st)"
  shows "probed (ls_trace st) \<noteq> [] \<and> prefix (probed (ls_trace st)) [Mon, Flash, Native] \<and>
         map (download_xml E u) (probed (ls_trace st)) = map Some (seen E u (ls_trace st))"
proof -
  from assms have "relinker_loop U E u [Mon, Flash, Native] init_state = (None, st)"
    by (simp only: run_probes_def)
  from loop_probed_prefix [OF this] obtain pre where "prefix pre [Mon, Flash, Native]"
    "pre \<noteq> []" "probed (ls_trace st) = probed (ls_trace init_state) @ pre"
    "map (download_xml E u) pre = map Some (concat (map (answer E u) pre))" by blast
  then show ?thesis by (simp add: init_state_def seen_def)
qed

lemma outcome_of_state:
  assumes "run_probes U E u = (None, st)" and "re_match_http u"
    and "extract_relinker_info U E u video_id audio_only = (Inr out, tr)"
  shows "o_is_live out = ls_is_live st \<and> o_duration out = ls_duration st \<and>
         probed tr = probed (ls_trace st)"
proof -
  obtain hs t where c: "create_http_urls U E u (ls_formats st) = (hs, t)"
    by (cases "create_http_urls U E u (ls_formats st)")
  have p: "probed t = []" using create_http_urls_probed [of U E u "ls_formats st"] c by simp
  with assms c show ?thesis
    by (auto simp: extract_relinker_info_def split: if_splits sum.splits)
qed

section \<open>Geo restriction\<close>

text \<open>
  C3 as stated does not hold: all three platforms can be requested, no format produced
  and the flag latched true, and still the call ends in another exception. Here \<open>mon\<close>
  declares geo protection and the document of \<open>native\<close> carries a licence reference whose
  DRM report raises.
\<close>

theorem geo_latched_but_drm_raises:
  "probed (ls_trace (snd (run_probes sample_utils
      ((sample_env (Some (empty_xml\<lparr>x_geoprotection := Some ''Y''\<rparr>)) (Some empty_xml)
          (Some (empty_xml\<lparr>x_license_url := Some ''https://licence/x''\<rparr>)))
       \<lparr>drm_fatal := True\<rparr>) ''https://relinker/x''))) = [Mon, Flash, Native] \<and>
   ls_formats (snd (run_probes sample_utils
      ((sample_env (Some (empty_xml\<lparr>x_geoprotection := Some ''Y''\<rparr>)) (Some empty_xml)
          (Some (empty_xml\<lparr>x_license_url := Some ''https://licence/x''\<rparr>)))
       \<lparr>drm_fatal := True\<rparr>) ''https://relinker/x'')) = [] \<and>
   ls_geoprotection (snd (run_probes sample_utils
      ((sample_env (Some (empty_xml\<lparr>x_geoprotection := Some ''Y''\<rparr>)) (Some empty_xml)
          (Some (empty_xml\<lparr>x_license_url := Some ''https://licence/x''\<rparr>)))
       \<lparr>drm_fatal := True\<rparr>) ''https://relinker/x'')) = Some True \<and>
   fst (extract_relinker_info sample_utils
      ((sample_env (Some (empty_xml\<lparr>x_geoprotection := Some ''Y''\<rparr>)) (Some empty_xml)
          (Some (empty_xml\<lparr>x_license_url := Some ''https://licence/x''\<rparr>)))
       \<lparr>drm_fatal := True\<rparr>) ''https://relinker/x'' ''id'' False) = Inl ExtractorError"
  by code_simp

text \<open>
  C3 (as the code has it). For a resolution URL, the call fails with \<open>GeoRestricted\<close>
  exactly when the loop over the platforms ends without an exception, with no format and
  with the geo-restriction flag latched true; the error then carries the countries
  \<open>['IT']\<close> and \<open>metadata_available = True\<close>. When a format was produced, the flag is not
  true or the loop raised, no \<open>GeoRestricted\<close> error is raised. A loop that ends without
  an exception and with no format has requested all three platforms.
\<close>

theorem geo_restricted_iff:
  assumes "re_match_http u"
  shows "(fst (extract_relinker_info U E u video_id audio_only) = Inl (GeoRestricted c m) \<longleftrightarrow>
            c = [''IT''] \<and> m \<and> fst (run_probes U E u) = None \<and>
            ls_formats (snd (run_probes U E u)) = [] \<and>
            ls_geoprotection (snd (run_probes U E u)) = Some True)
       \<and> (fst (run_probes U E u) = None \<and> ls_formats (snd (run_probes U E u)) = [] \<longrightarrow>
            probed (ls_trace (snd (run_probes U E u))) = [Mon, Flash, Native])"
proof (intro conjI impI)
  obtain res st where rp: "run_probes U E u = (res, st)" by (cases "run_probes U E u")
  show "fst (extract_relinker_info U E u video_id audio_only) = Inl (GeoRestricted c m) \<longleftrightarrow>
            c = [''IT''] \<and> m \<and> fst (run_probes U E u) = None \<and>
            ls_formats (snd (run_probes U E u)) = [] \<and>
            ls_geoprotection (snd (run_probes U E u)) = Some True"
  proof (cases res)
    case (Some e)
    with rp have "e = ExtractorError \<or> e = TypeError"
      unfolding run_probes_def using loop_raise by blast
    with Some rp assms show ?thesis by (auto simp: extract_relinker_info_def)
  next
    case None
    show ?thesis
    proof (cases "ls_formats st = [] \<and> ls_geoprotection st = Some True")
      case True
      with None rp assms show ?thesis
        by (auto simp: extract_relinker_info_def GEO_COUNTRIES_def raise_geo_restricted_def)
    next
      case False
      obtain h tr where c: "create_http_urls U E u (ls_formats st) = (h, tr)"
        by (cases "create_http_urls U E u (ls_formats st)")
      have "h \<noteq> Inl (GeoRestricted c m)"
        using create_http_urls_err [of U E u "ls_formats st" "GeoRestricted c m"] c by auto
      with False None rp assms c show ?thesis
        by (auto simp: extract_relinker_info_def split: sum.splits)
    qed
  qed
next
  assume a: "fst (run_probes U E u) = None \<and> ls_formats (snd (run_probes U E u)) = []"
  then have "relinker_loop U E u [Mon, Flash, Native] init_state = (None, snd (run_probes U E u))"
    unfolding run_probes_def by (metis prod.collapse)
  from loop_no_formats_all_probed [OF this] a
  show "probed (ls_trace (snd (run_probes U E u))) = [Mon, Flash, Native]"
    by (simp add: init_state_def)
qed

theorem geo_restricted_iff_witness:
  "re_match_http ''https://relinker/x'' \<and>
   fst (extract_relinker_info sample_utils
          (sample_env (Some empty_xml) (Some (empty_xml\<lparr>x_geoprotection := Some ''Y''\<rparr>))
             (Some empty_xml))
          ''https://relinker/x'' ''id'' False) = Inl (GeoRestricted [''IT''] True) \<and>
   probed (ls_trace (snd (run_probes sample_utils
          (sample_env (Some empty_xml) (Some (empty_xml\<lparr>x_geoprotection := Some ''Y''\<rparr>))
             (Some empty_xml)) ''https://relinker/x''))) = [Mon, Flash, Native]"
proof -
  let ?E = "sample_env (Some empty_xml) (Some (empty_xml\<lparr>x_geoprotection := Some ''Y''\<rparr>))
             (Some empty_xml)"
  have h: "re_match_http ''https://relinker/x''" by (simp add: re_match_http_def)
  have r: "fst (run_probes sample_utils ?E ''https://relinker/x'') = None \<and>
           ls_formats (snd (run_probes sample_utils ?E ''https://relinker/x'')) = [] \<and>
           ls_geoprotection (snd (run_probes sample_utils ?E ''https://relinker/x'')) = Some True"
    by code_simp
  from h r geo_restricted_iff [OF h, of sample_utils ?E "''id''" False "[''IT'']" True]
  show ?thesis by blast
qed

section \<open>Latching of the flags and of the duration\<close>

text \<open>
  C1 as stated does not hold. With \<open>is_live = N\<close>, \<open>duration = 0\<close> from \<open>mon\<close> and
  \<open>is_live = Y\<close>, \<open>duration = 60\<close> from \<open>flash\<close>, the outcome has \<open>is_live = True\<close> and
  \<open>duration = 60\<close>, whereas the first present values are false and zero.
\<close>

theorem later_profile_overwrites_false:
  "map_sum id (\<lambda>out. (o_is_live out, o_duration out))
     (fst (extract_relinker_info sample_utils
        (sample_env (Some (empty_xml\<lparr>x_is_live := Some ''N'', x_duration := Some ''0''\<rparr>))
                    (Some (empty_xml\<lparr>x_is_live := Some ''Y'', x_duration := Some ''60''\<rparr>))
                    (Some empty_xml))
        ''https://relinker/x'' ''id'' True)) = Inr (Some True, Some 60)
   \<and> first_present (map declared_flag [Some ''N'', Some ''Y'', None]) = Some False
   \<and> first_present (map sample_parse_duration [Some ''0'', Some ''60'', None]) = Some 0"
  by code_simp

text \<open>
  C1 (as the code has it). The guards are \<open>if not v\<close>, so a false flag or a zero duration
  is not latched. When the loop, run for a resolution URL, ends without an exception, the platforms requested are
  a non-empty initial part of \<open>mon\<close>, \<open>flash\<close>, \<open>native\<close>, each answered by a document, and
  over these documents in that order: a flag is true exactly when some document
  declares \<open>Y\<close> (the first true value wins and is never overwritten, an earlier \<open>N\<close> is
  overwritten by a later \<open>Y\<close>), and it is false when some document declares a value and
  none declares \<open>Y\<close>; the duration is the first non-zero parsed duration, or else what
  the last document gave. The outcome carries the liveness flag and the duration so
  determined.
\<close>

theorem latch_first_truthy:
  assumes "run_probes U E u = (None, st)"
  shows "probed (ls_trace st) \<noteq> [] \<and> prefix (probed (ls_trace st)) [Mon, Flash, Native] \<and>
         map (download_xml E u) (probed (ls_trace st)) = map Some (seen E u (ls_trace st)) \<and>
         (ls_geoprotection st = Some True \<longleftrightarrow>
            Some ''Y'' \<in> set (map x_geoprotection (seen E u (ls_trace st)))) \<and>
         ((\<exists>t. Some t \<in> set (map x_geoprotection (seen E u (ls_trace st)))) \<and>
          Some ''Y'' \<notin> set (map x_geoprotection (seen E u (ls_trace st))) \<longrightarrow>
            ls_geoprotection st = Some False) \<and>
         (ls_is_live st = Some True \<longleftrightarrow>
            Some ''Y'' \<in> set (map x_is_live (seen E u (ls_trace st)))) \<and>
         ((\<exists>t. Some t \<in> set (map x_is_live (seen E u (ls_trace st)))) \<and>
          Some ''Y'' \<notin> set (map x_is_live (seen E u (ls_trace st))) \<longrightarrow>
            ls_is_live st = Some False) \<and>
         ls_duration st =
           dur_law (map (\<lambda>r. parse_duration U (x_duration r)) (seen E u (ls_trace st))) \<and>
         (re_match_http u \<longrightarrow>
            (\<forall>out tr. extract_relinker_info U E u video_id audio_only = (Inr out, tr) \<longrightarrow>
               probed tr = probed (ls_trace st) \<and>
               (o_is_live out = Some True \<longleftrightarrow>
                  Some ''Y'' \<in> set (map x_is_live (seen E u (ls_trace st)))) \<and>
               ((\<exists>t. Some t \<in> set (map x_is_live (seen E u (ls_trace st)))) \<and>
                Some ''Y'' \<notin> set (map x_is_live (seen E u (ls_trace st))) \<longrightarrow>
                  o_is_live out = Some False) \<and>
               o_duration out =
                 dur_law (map (\<lambda>r. parse_duration U (x_duration r)) (seen E u (ls_trace st)))))"
proof -
  let ?docs = "seen E u (ls_trace st)"
  from run_probes_law [OF assms] have
    g: "ls_geoprotection st = flag_law (map x_geoprotection ?docs)" and
    l: "ls_is_live st = flag_law (map x_is_live ?docs)" and
    d: "ls_duration st = dur_law (map (\<lambda>r. parse_duration U (x_duration r)) ?docs)"
    by (simp_all add: law_inv_def)
  have f1: "flag_law ts = Some True \<longleftrightarrow> Some ''Y'' \<in> set ts" for ts
    by (auto simp: flag_law_def)
  have f2: "(\<exists>t. Some t \<in> set ts) \<and> Some ''Y'' \<notin> set ts \<longrightarrow> flag_law ts = Some False" for ts
    by (auto simp: flag_law_def)
  have a: "probed (ls_trace st) \<noteq> [] \<and> prefix (probed (ls_trace st)) [Mon, Flash, Native] \<and>
         map (download_xml E u) (probed (ls_trace st)) = map Some ?docs"
    by (rule run_probes_prefix [OF assms])
  have o: "probed tr = probed (ls_trace st) \<and> o_is_live out = ls_is_live st \<and>
           o_duration out = ls_duration st"
    if "re_match_http u" "extract_relinker_info U E u video_id audio_only = (Inr out, tr)"
    for out tr
    using outcome_of_state [OF assms that] by simp
  show ?thesis
    using a o f1 [of "map x_geoprotection ?docs"] f2 [of "map x_geoprotection ?docs"]
      f1 [of "map x_is_live ?docs"] f2 [of "map x_is_live ?docs"]
    unfolding g l d
    by (intro conjI impI allI) (simp_all only:, blast+)
qed

theorem latch_first_truthy_witness:
  "run_probes sample_utils
     (sample_env (Some (empty_xml\<lparr>x_is_live := Some ''N'', x_duration := Some ''0''\<rparr>))
                 (Some (empty_xml\<lparr>x_is_live := Some ''Y'', x_duration := Some ''60''\<rparr>))
                 (Some empty_xml))
     ''https://relinker/x'' =
     (None, \<lparr>ls_formats = [], ls_geoprotection = Some False, ls_is_live = Some True,
             ls_duration = Some 60,
             ls_trace = [DownloadXml ''https://relinker/x'' Mon,
                         DownloadXml ''https://relinker/x'' Flash,
                         DownloadXml ''https://relinker/x'' Native]\<rparr>) \<and>
   Some ''Y'' \<in> set (map x_is_live (seen
     (sample_env (Some (empty_xml\<lparr>x_is_live := Some ''N'', x_duration := Some ''0''\<rparr>))
                 (Some (empty_xml\<lparr>x_is_live := Some ''Y'', x_duration := Some ''60''\<rparr>))
                 (Some empty_xml)) ''https://relinker/x''
     [DownloadXml ''https://relinker/x'' Mon, DownloadXml ''https://relinker/x'' Flash,
      DownloadXml ''https://relinker/x'' Native])) \<and>
   dur_law (map (\<lambda>r. parse_duration sample_utils (x_duration r)) (seen
     (sample_env (Some (empty_xml\<lparr>x_is_live := Some ''N'', x_duration := Some ''0''\<rparr>))
                 (Some (empty_xml\<lparr>x_is_live := Some ''Y'', x_duration := Some ''60''\<rparr>))
                 (Some empty_xml)) ''https://relinker/x''
     [DownloadXml ''https://relinker/x'' Mon, DownloadXml ''https://relinker/x'' Flash,
      DownloadXml ''https://relinker/x'' Native])) = Some 60 \<and>
   run_probes sample_utils
     (sample_env (Some (empty_xml\<lparr>x_is_live := Some ''N''\<rparr>)) (Some empty_xml) (Some empty_xml))
     ''https://relinker/x'' =
     (None, \<lparr>ls_formats = [], ls_geoprotection = Some False, ls_is_live = Some False,
             ls_duration = None,
             ls_trace = [DownloadXml ''https://relinker/x'' Mon,
                         DownloadXml ''https://relinker/x'' Flash,
                         DownloadXml ''https://relinker/x'' Native]\<rparr>) \<and>
   Some ''Y'' \<notin> set (map x_is_live (seen
     (sample_env (Some (empty_xml\<lparr>x_is_live := Some ''N''\<rparr>)) (Some empty_xml) (Some empty_xml))
     ''https://relinker/x''
     [DownloadXml ''https://relinker/x'' Mon, DownloadXml ''https://relinker/x'' Flash,
      DownloadXml ''https://relinker/x'' Native]))"
proof -
  let ?A = "sample_env (Some (empty_xml\<lparr>x_is_live := Some ''N'', x_duration := Some ''0''\<rparr>))
                 (Some (empty_xml\<lparr>x_is_live := Some ''Y'', x_duration := Some ''60''\<rparr>))
                 (Some empty_xml)"
  let ?B = "sample_env (Some (empty_xml\<lparr>x_is_live := Some ''N''\<rparr>)) (Some empty_xml)
                 (Some empty_xml)"
  let ?tr = "[DownloadXml ''https://relinker/x'' Mon, DownloadXml ''https://relinker/x'' Flash,
              DownloadXml ''https://relinker/x'' Native]"
  let ?sa = "\<lparr>ls_formats = [], ls_geoprotection = Some False, ls_is_live = Some True,
             ls_duration = Some 60, ls_trace = ?tr\<rparr>"
  let ?sb = "\<lparr>ls_formats = [], ls_geoprotection = Some False, ls_is_live = Some False,
             ls_duration = None, ls_trace = ?tr\<rparr>"
  have a: "run_probes sample_utils ?A ''https://relinker/x'' = (None, ?sa)" by code_simp
  have b: "run_probes sample_utils ?B ''https://relinker/x'' = (None, ?sb)" by code_simp
  from latch_first_truthy [OF a, of "''id''" True] latch_first_truthy [OF b, of "''id''" True] a b
  show ?thesis by simp
qed

section \<open>Classification of the media URL\<close>

text \<open>
  C6 as stated does not hold: formats gathered from an earlier profile stay in the
  outcome. With an HLS rendition from \<open>mon\<close> and an \<open>.mp3\<close> URL from \<open>flash\<close> the outcome has
  two formats.
\<close>

theorem mp3_after_hls_two_formats:
  "map_sum id (\<lambda>out. map f_format_id (o_formats out))
    (fst (extract_relinker_info sample_utils
        ((sample_env (Some (empty_xml\<lparr>x_url := Some (Some ''http://x/a.m3u8'')\<rparr>))
           (Some (empty_xml\<lparr>x_url := Some (Some ''http://x/a.mp3'')\<rparr>))
           (Some empty_xml))
         \<lparr>extract_m3u8_formats := (\<lambda>u. [empty_format\<lparr>f_url := Some ''http://x/v1.m3u8'',
              f_format_id := Some ''hls-700''\<rparr>])\<rparr>)
        ''https://relinker/x'' ''id'' True))
   = Inr [Some ''hls-700'', Some ''http-mp3'']"
  by code_simp

text \<open>
  C6 (as the code has it). Let the document of a platform declare a media URL that is
  not the placeholder and has extension \<open>mp3\<close>, and let its DRM report, if it carries a
  licence reference, return. Then the iteration for that platform appends one
  audio-only format (\<open>vcodec = none\<close>) to the formats gathered so far and ends the loop:
  no later platform is requested, whatever the remaining platforms are. When the loop,
  run for a resolution URL, reaches that platform (every earlier iteration went on to
  the next one), the platforms
  requested by the call are the earlier ones and this one, and the outcome holds the
  formats of the earlier platforms, then the audio-only format, then, unless
  \<open>audio_only\<close>, what \<open>_create_http_urls\<close> returns (or its exception). It holds exactly the
  one audio-only format when nothing was gathered before and \<open>audio_only\<close> is set or
  \<open>_create_http_urls\<close> returns nothing.
\<close>

theorem mp3_stops_probing:
  assumes "download_xml E u pl = Some r" and "has_license r \<longrightarrow> \<not> drm_fatal E"
    and "x_url r = Some (Some media_url)"
    and "\<not> contains ''/video_no_available.mp4'' media_url"
    and "determine_ext U (Some media_url) ''unknown_video'' = ''mp3''"
  shows "fst (relinker_loop U E u (pl # pls) st) = None \<and>
         ls_formats (snd (relinker_loop U E u (pl # pls) st)) =
           ls_formats st @ [mp3_format media_url] \<and>
         ls_trace (snd (relinker_loop U E u (pl # pls) st)) =
           ls_trace st @ DownloadXml u pl # drm_events r \<and>
         f_vcodec (mp3_format media_url) = Some ''none'' \<and>
         (re_match_http u \<and> [Mon, Flash, Native] = pre @ pl # post \<and>
          continue_through U E u pre init_state = Some st0 \<longrightarrow>
            probed (snd (extract_relinker_info U E u video_id audio_only)) = pre @ [pl] \<and>
            (audio_only \<longrightarrow>
               map_sum id o_formats (fst (extract_relinker_info U E u video_id audio_only)) =
                 Inr (ls_formats st0 @ [mp3_format media_url])) \<and>
            (\<not> audio_only \<longrightarrow>
               map_sum id o_formats (fst (extract_relinker_info U E u video_id audio_only)) =
                 map_sum id (\<lambda>https. ls_formats st0 @ mp3_format media_url # https)
                   (fst (create_http_urls U E u (ls_formats st0 @ [mp3_format media_url])))) \<and>
            (ls_formats st0 = [] \<and>
             (audio_only \<or> fst (create_http_urls U E u [mp3_format media_url]) = Inr []) \<longrightarrow>
               map_sum id o_formats (fst (extract_relinker_info U E u video_id audio_only)) =
                 Inr [mp3_format media_url]))"
proof -
  have p: "probe U E u pl s =
      Break (add_formats [mp3_format media_url]
        (latch U r (s\<lparr>ls_trace := ls_trace s @ DownloadXml u pl # drm_events r\<rparr>)))" for s
    unfolding probe_classify [OF assms(1,2)]
    using assms(3,4,5) by (simp add: classify_def Let_def)
  have l: "relinker_loop U E u (pl # ps) s =
      (None, add_formats [mp3_format media_url]
        (latch U r (s\<lparr>ls_trace := ls_trace s @ DownloadXml u pl # drm_events r\<rparr>)))" for s ps
    by (simp add: p)
  have a: "fst (relinker_loop U E u (pl # pls) st) = None \<and>
         ls_formats (snd (relinker_loop U E u (pl # pls) st)) =
           ls_formats st @ [mp3_format media_url] \<and>
         ls_trace (snd (relinker_loop U E u (pl # pls) st)) =
           ls_trace st @ DownloadXml u pl # drm_events r"
    unfolding l by (simp add: add_formats_def latch_def)
  have b: "f_vcodec (mp3_format media_url) = Some ''none''"
    by (simp add: mp3_format_def)
  have c: "probed (snd (extract_relinker_info U E u video_id audio_only)) = pre @ [pl] \<and>
            (audio_only \<longrightarrow>
               map_sum id o_formats (fst (extract_relinker_info U E u video_id audio_only)) =
                 Inr (ls_formats st0 @ [mp3_format media_url])) \<and>
            (\<not> audio_only \<longrightarrow>
               map_sum id o_formats (fst (extract_relinker_info U E u video_id audio_only)) =
                 map_sum id (\<lambda>https. ls_formats st0 @ mp3_format media_url # https)
                   (fst (create_http_urls U E u (ls_formats st0 @ [mp3_format media_url])))) \<and>
            (ls_formats st0 = [] \<and>
             (audio_only \<or> fst (create_http_urls U E u [mp3_format media_url]) = Inr []) \<longrightarrow>
               map_sum id o_formats (fst (extract_relinker_info U E u video_id audio_only)) =
                 Inr [mp3_format media_url])"
    if t: "re_match_http u \<and> [Mon, Flash, Native] = pre @ pl # post \<and>
          continue_through U E u pre init_state = Some st0"
  proof -
    let ?S = "add_formats [mp3_format media_url]
        (latch U r (st0\<lparr>ls_trace := ls_trace st0 @ DownloadXml u pl # drm_events r\<rparr>))"
    from t have "run_probes U E u = relinker_loop U E u (pre @ pl # post) init_state"
      by (simp only: run_probes_def)
    also have "\<dots> = relinker_loop U E u (pl # post) st0"
      using t by (intro continue_through_loop) simp
    also have "\<dots> = (None, ?S)" by (rule l)
    finally have rp: "run_probes U E u = (None, ?S)" .
    have pr: "probed (ls_trace st0) = pre"
      using continue_through_probed [of U E u pre init_state st0] t by (simp add: init_state_def)
    have fs: "ls_formats ?S = ls_formats st0 @ [mp3_format media_url]"
      by (simp add: add_formats_def)
    have ts: "probed (ls_trace ?S) = pre @ [pl]"
      by (simp add: add_formats_def latch_def pr)
    obtain hs tr where ch: "create_http_urls U E u (ls_formats st0 @ [mp3_format media_url]) = (hs, tr)"
      by (cases "create_http_urls U E u (ls_formats st0 @ [mp3_format media_url])")
    have ptr: "probed tr = []"
      using create_http_urls_probed [of U E u "ls_formats st0 @ [mp3_format media_url]"] ch
      by simp
    have e: "extract_relinker_info U E u video_id audio_only =
        (if audio_only then
           (Inr \<lparr>o_is_live = ls_is_live ?S, o_duration = ls_duration ?S,
                 o_formats = ls_formats ?S\<rparr>, ls_trace ?S)
         else
           (case hs of
              Inl e \<Rightarrow> (Inl e, ls_trace ?S @ tr)
            | Inr https \<Rightarrow>
                (Inr \<lparr>o_is_live = ls_is_live ?S, o_duration = ls_duration ?S,
                      o_formats = ls_formats ?S @ https\<rparr>, ls_trace ?S @ tr)))"
      using t by (simp add: extract_relinker_info_def rp fs ch split: sum.splits)
    show ?thesis
      unfolding e using ts ptr fs ch by (cases hs; cases audio_only) auto
  qed
  from a b c show ?thesis by blast
qed

theorem mp3_stops_probing_witness:
  "download_xml (sample_env (Some empty_xml)
       (Some (empty_xml\<lparr>x_url := Some (Some ''http://x/a.mp3'')\<rparr>)) (Some empty_xml))
     ''https://relinker/x'' Flash = Some (empty_xml\<lparr>x_url := Some (Some ''http://x/a.mp3'')\<rparr>) \<and>
   \<not> has_license (empty_xml\<lparr>x_url := Some (Some ''http://x/a.mp3'')\<rparr>) \<and>
   \<not> contains ''/video_no_available.mp4'' ''http://x/a.mp3'' \<and>
   determine_ext sample_utils (Some ''http://x/a.mp3'') ''unknown_video'' = ''mp3'' \<and>
   re_match_http ''https://relinker/x'' \<and>
   continue_through sample_utils (sample_env (Some empty_xml)
       (Some (empty_xml\<lparr>x_url := Some (Some ''http://x/a.mp3'')\<rparr>)) (Some empty_xml))
     ''https://relinker/x'' [Mon] init_state =
     Some \<lparr>ls_formats = [], ls_geoprotection = Some False, ls_is_live = Some False,
           ls_duration = None, ls_trace = [DownloadXml ''https://relinker/x'' Mon]\<rparr> \<and>
   probed (snd (extract_relinker_info sample_utils
       (sample_env (Some empty_xml)
          (Some (empty_xml\<lparr>x_url := Some (Some ''http://x/a.mp3'')\<rparr>)) (Some empty_xml))
       ''https://relinker/x'' ''id'' True)) = [Mon, Flash] \<and>
   map_sum id o_formats (fst (extract_relinker_info sample_utils
       (sample_env (Some empty_xml)
          (Some (empty_xml\<lparr>x_url := Some (Some ''http://x/a.mp3'')\<rparr>)) (Some empty_xml))
       ''https://relinker/x'' ''id'' True)) = Inr [mp3_format ''http://x/a.mp3'']"
proof -
  let ?r = "empty_xml\<lparr>x_url := Some (Some ''http://x/a.mp3'')\<rparr>"
  let ?E = "sample_env (Some empty_xml) (Some ?r) (Some empty_xml)"
  let ?s0 = "\<lparr>ls_formats = [], ls_geoprotection = Some False, ls_is_live = Some False,
           ls_duration = None, ls_trace = [DownloadXml ''https://relinker/x'' Mon]\<rparr>"
  have 1: "download_xml ?E ''https://relinker/x'' Flash = Some ?r" by (simp add: sample_env_def)
  have 2: "\<not> has_license ?r" by (simp add: has_license_def empty_xml_def)
  then have lic: "has_license ?r \<longrightarrow> \<not> drm_fatal ?E" by simp
  have 3: "x_url ?r = Some (Some ''http://x/a.mp3'')" by simp
  have 4: "\<not> contains ''/video_no_available.mp4'' ''http://x/a.mp3''" by simp
  have 5: "determine_ext sample_utils (Some ''http://x/a.mp3'') ''unknown_video'' = ''mp3''"
    by (simp add: sample_defs)
  have 6: "re_match_http ''https://relinker/x''" by (simp add: re_match_http_def)
  have 7: "continue_through sample_utils ?E ''https://relinker/x'' [Mon] init_state = Some ?s0"
    by code_simp
  have 8: "[Mon, Flash, Native] = [Mon] @ Flash # [Native]" by simp
  have 9: "ls_formats ?s0 = []" by simp
  from mp3_stops_probing [OF 1 lic 3 4 5, of "[Native]" init_state "[Mon]" "[Native]" ?s0 "''id''" True]
    6 7 8 9
  have "probed (snd (extract_relinker_info sample_utils ?E ''https://relinker/x'' ''id'' True)) =
          [Mon] @ [Flash] \<and>
        map_sum id o_formats (fst (extract_relinker_info sample_utils ?E ''https://relinker/x'' ''id'' True)) =
          Inr [mp3_format ''http://x/a.mp3'']"
    by blast
  then have "probed (snd (extract_relinker_info sample_utils ?E ''https://relinker/x'' ''id'' True)) =
          [Mon, Flash] \<and>
        map_sum id o_formats (fst (extract_relinker_info sample_utils ?E ''https://relinker/x'' ''id'' True)) =
          Inr [mp3_format ''http://x/a.mp3'']"
    by (simp only: append.simps)
  with 1 2 4 5 6 7 show ?thesis by blast
qed

text \<open>
  C8 as stated does not hold: a URL with extension \<open>m3u8\<close> answered for \<open>flash\<close> is
  skipped, the HLS expansion is not called and no format is produced.
\<close>

theorem m3u8_from_flash_skipped:
  "extract_relinker_info sample_utils
        ((sample_env (Some empty_xml)
           (Some (empty_xml\<lparr>x_url := Some (Some ''http://x/a.m3u8'')\<rparr>))
           (Some empty_xml))
         \<lparr>extract_m3u8_formats := (\<lambda>u. [empty_format\<lparr>f_url := Some ''http://x/v1.m3u8''\<rparr>])\<rparr>)
        ''https://relinker/x'' ''id'' True
   = (Inr \<lparr>o_is_live = Some False, o_duration = None, o_formats = []\<rparr>,
      [DownloadXml ''https://relinker/x'' Mon, DownloadXml ''https://relinker/x'' Flash,
       DownloadXml ''https://relinker/x'' Native])"
  by code_simp

text \<open>
  C8 (as the code has it). Let the document of a platform declare a media URL that is
  not the placeholder, and let its DRM report, if it carries a licence reference,
  return. The URL is expanded through the HLS capability when its extension is \<open>m3u8\<close>
  and the platform is \<open>mon\<close>, or when it carries the marker \<open>format=m3u8\<close> with an
  extension other than \<open>m3u8\<close> and \<open>mp3\<close> (and, for \<open>f4m\<close>, only on \<open>flash\<close>); the renditions
  returned, none if the expansion failed, are appended and the loop goes on. A URL with
  extension \<open>m3u8\<close> from \<open>flash\<close> or \<open>native\<close> is skipped without any expansion.
\<close>

theorem hls_marker_expansion:
  assumes "download_xml E u pl = Some r" and "has_license r \<longrightarrow> \<not> drm_fatal E"
    and "x_url r = Some (Some media_url)"
    and "\<not> contains ''/video_no_available.mp4'' media_url"
    and "ext = determine_ext U (Some media_url) ''unknown_video''"
  shows "((ext = ''m3u8'' \<and> pl = Mon) \<or>
          (contains ''format=m3u8'' media_url \<and> ext \<noteq> ''m3u8'' \<and> ext \<noteq> ''mp3'' \<and>
           (ext = ''f4m'' \<longrightarrow> pl = Flash)) \<longrightarrow>
          (\<exists>st'. probe U E u pl st = Continue st' \<and>
             ls_formats st' = ls_formats st @ extract_m3u8_formats E media_url \<and>
             ls_trace st' =
               ls_trace st @ DownloadXml u pl # drm_events r @ [ExtractM3u8 media_url])) \<and>
         (ext = ''m3u8'' \<and> pl \<noteq> Mon \<longrightarrow>
          (\<exists>st'. probe U E u pl st = Continue st' \<and>
             ls_formats st' = ls_formats st \<and>
             ls_trace st' = ls_trace st @ DownloadXml u pl # drm_events r))"
  unfolding probe_classify [OF assms(1,2)]
  using assms(3,4,5)
  by (auto simp: classify_def Let_def add_formats_def log_event_def latch_def)

theorem hls_marker_expansion_witness:
  "download_xml (sample_env (Some (empty_xml\<lparr>x_url := Some (Some ''http://x/a.m3u8'')\<rparr>))
       (Some (empty_xml\<lparr>x_url := Some (Some ''http://x/a.m3u8'')\<rparr>)) (Some empty_xml))
     ''https://relinker/x'' Mon = Some (empty_xml\<lparr>x_url := Some (Some ''http://x/a.m3u8'')\<rparr>) \<and>
   download_xml (sample_env (Some (empty_xml\<lparr>x_url := Some (Some ''http://x/a.m3u8'')\<rparr>))
       (Some (empty_xml\<lparr>x_url := Some (Some ''http://x/a.m3u8'')\<rparr>)) (Some empty_xml))
     ''https://relinker/x'' Flash = Some (empty_xml\<lparr>x_url := Some (Some ''http://x/a.m3u8'')\<rparr>) \<and>
   \<not> has_license (empty_xml\<lparr>x_url := Some (Some ''http://x/a.m3u8'')\<rparr>) \<and>
   \<not> contains ''/video_no_available.mp4'' ''http://x/a.m3u8'' \<and>
   ''m3u8'' = determine_ext sample_utils (Some ''http://x/a.m3u8'') ''unknown_video'' \<and>
   (\<exists>st'. probe sample_utils
       (sample_env (Some (empty_xml\<lparr>x_url := Some (Some ''http://x/a.m3u8'')\<rparr>))
          (Some (empty_xml\<lparr>x_url := Some (Some ''http://x/a.m3u8'')\<rparr>)) (Some empty_xml))
       ''https://relinker/x'' Mon init_state = Continue st' \<and>
      ls_formats st' = [] \<and>
      ls_trace st' = [DownloadXml ''https://relinker/x'' Mon, ExtractM3u8 ''http://x/a.m3u8'']) \<and>
   (\<exists>st'. probe sample_utils
       (sample_env (Some (empty_xml\<lparr>x_url := Some (Some ''http://x/a.m3u8'')\<rparr>))
          (Some (empty_xml\<lparr>x_url := Some (Some ''http://x/a.m3u8'')\<rparr>)) (Some empty_xml))
       ''https://relinker/x'' Flash init_state = Continue st' \<and>
      ls_formats st' = [] \<and>
      ls_trace st' = [DownloadXml ''https://relinker/x'' Flash])"
proof -
  let ?r = "empty_xml\<lparr>x_url := Some (Some ''http://x/a.m3u8'')\<rparr>"
  let ?E = "sample_env (Some ?r) (Some ?r) (Some empty_xml)"
  have 1: "download_xml ?E ''https://relinker/x'' Mon = Some ?r" by (simp add: sample_env_def)
  have flash: "download_xml ?E ''https://relinker/x'' Flash = Some ?r" by (simp add: sample_env_def)
  have 2: "\<not> has_license ?r" by (simp add: has_license_def empty_xml_def)
  then have lic: "has_license ?r \<longrightarrow> \<not> drm_fatal ?E" by simp
  have 3: "x_url ?r = Some (Some ''http://x/a.m3u8'')" by simp
  have 4: "\<not> contains ''/video_no_available.mp4'' ''http://x/a.m3u8''" by simp
  have 5: "''m3u8'' = determine_ext sample_utils (Some ''http://x/a.m3u8'') ''unknown_video''"
    by (simp add: sample_defs)
  have 6: "extract_m3u8_formats ?E ''http://x/a.m3u8'' = []" by (simp add: sample_env_def)
  from hls_marker_expansion [OF 1 lic 3 4 5, of init_state]
       hls_marker_expansion [OF flash lic 3 4 5, of init_state] 1 flash 2 4 5 6
  show ?thesis by (simp add: drm_events_def init_state_def)
qed

section \<open>Defects found by evaluation\<close>

text \<open>
  C5. Three documents without an \<open>is_live\<close> element (the last one with a direct file):
  the outcome holds \<open>is_live = False\<close> instead of omitting the key, because
  \<open>xpath_text(...) == 'Y'\<close> turns the missing element into \<open>False\<close> before \<open>filter_dict\<close>
  looks for \<open>None\<close>. The duration, which nobody declared, is omitted.
\<close>

theorem absent_is_live_reported_false:
  "fst (extract_relinker_info sample_utils
        (sample_env (Some empty_xml) (Some empty_xml)
           (Some (empty_xml\<lparr>x_url := Some (Some ''http://x/a.mp4''), x_bitrate := Some ''700''\<rparr>)))
        ''https://relinker/x'' ''id'' False)
   = Inr \<lparr>o_is_live = Some False, o_duration = None,
          o_formats = [direct_format ''http://x/a.mp4'' 700]\<rparr>"
  by code_simp

text \<open>
  C7. A direct file answered for \<open>native\<close> without a \<open>bitrate\<close> element: \<open>int_or_none\<close> gives
  \<open>None\<close> and the comparison \<open>bitrate > 0\<close> raises \<open>TypeError\<close>; the resolution fails.
\<close>

theorem missing_bitrate_raises:
  "int_or_none sample_utils None = None \<and>
   fst (extract_relinker_info sample_utils
        (sample_env (Some empty_xml) (Some empty_xml)
           (Some (empty_xml\<lparr>x_url := Some (Some ''http://x/a.mp4'')\<rparr>)))
        ''https://relinker/x'' ''id'' False)
   = Inl TypeError"
  by code_simp

text \<open>
  C2. The redirect target carries no quality list, so the only token is the wildcard;
  with two existing video formats that have a bitrate, \<open>br\<close> stays \<open>None\<close> and
  \<open>math.floor(br / 100)\<close> raises \<open>TypeError\<close>.
\<close>

theorem wildcard_with_two_formats_raises:
  "create_http_urls sample_utils
      ((sample_env None None None)\<lparr>request_webpage := (\<lambda>u.
          if u = ''https://relinker/x&overrideUserAgentRule=mp4-*'' \<or> u = ''https://relinker/x''
          then Response 200 ''https://host/extra/path/id.mp4?a'' else NoResponse)\<rparr>)
      ''https://relinker/x''
      [empty_format\<lparr>f_url := Some ''http://x/v1.m3u8'', f_tbr := Some 700\<rparr>,
       empty_format\<lparr>f_url := Some ''http://x/v2.m3u8'', f_tbr := Some 1200\<rparr>]
   = (Inl TypeError, [HeadRequest ''https://relinker/x&overrideUserAgentRule=mp4-*'',
                      HeadRequest ''https://relinker/x''])"
  by code_simp

text \<open>
  A token that is not a key of the table and matches no existing format raises
  \<open>KeyError\<close> (here \<open>500\<close>, the first of the tokens \<open>500,600\<close>); the tokens \<open>250\<close> and \<open>400\<close> give
  the two descriptors in order.
\<close>

lemma unknown_tier_raises:
  "create_http_urls sample_utils
      ((sample_env None None None)\<lparr>request_webpage := (\<lambda>u.
          if u = ''https://relinker/x&overrideUserAgentRule=mp4-*'' \<or> u = ''https://relinker/x''
          then Response 200 ''https://host/extra/path/id_500,600.mp4?a'' else NoResponse)\<rparr>)
      ''https://relinker/x'' []
   = (Inl KeyError, [HeadRequest ''https://relinker/x&overrideUserAgentRule=mp4-*'',
                      HeadRequest ''https://relinker/x''])"
  by code_simp

lemma known_tiers_ok:
  "map_sum id (map f_format_id) (fst (create_http_urls sample_utils
      ((sample_env None None None)\<lparr>request_webpage := (\<lambda>u.
          if u = ''https://relinker/x&overrideUserAgentRule=mp4-*'' \<or> u = ''https://relinker/x''
          then Response 200 ''https://host/extra/path/id_250,400.mp4?a'' else NoResponse)\<rparr>)
      ''https://relinker/x'' []))
   = Inr [Some ''https-250'', Some ''https-400'']"
  by code_simp


end
